theory Spec2Isabelle
  imports Complex_Main
begin

section \<open>Errors\<close>

text \<open>
  The exceptions of the Python sources, as values. \<open>TensorError\<close> stands for what torch
  (and einops) raise on a shape mismatch or an index out of bounds (an IndexError or a
  RuntimeError); \<open>ValueError\<close> is Python's failure to unpack a sequence that is too short.
\<close>

datatype error = AssertionError | NotImplementedError | AttributeError | ValueError | TensorError

definition and_then :: "error + 'a \<Rightarrow> ('a \<Rightarrow> error + 'b) \<Rightarrow> error + 'b" where
  "and_then r f = (case r of Inl e \<Rightarrow> Inl e | Inr x \<Rightarrow> f x)"

section \<open>Sparse accumulator (\<open>src/geom/ba.py\<close>, lines 61 to 92)\<close>

text \<open>
  A tensor of shape \<open>(B, N, ...)\<close> is the list of its \<open>N\<close> blocks along dimension 1; the
  batch dimension is 1 in every call (\<open>bundle_adjustment\<close> adds it with \<open>unsqueeze(0)\<close>)
  and is left out. A block is a value of a commutative monoid. Index tensors hold
  integers.
\<close>

text \<open>\<open>A[:, v]\<close> with a boolean mask \<open>v\<close>: the mask must have the length of the dimension.\<close>

definition mask_select :: "bool list \<Rightarrow> 'a list \<Rightarrow> error + 'a list" where
  "mask_select v xs =
     (if length v = length xs then Inr (map snd (filter fst (zip v xs))) else Inl TensorError)"

text \<open>An elementwise test of two index tensors, \<open>(ii >= 0) & (jj >= 0)\<close> and the like.\<close>

definition mask2 :: "(int \<Rightarrow> int \<Rightarrow> bool) \<Rightarrow> int list \<Rightarrow> int list \<Rightarrow> error + bool list" where
  "mask2 p ii jj = (if length ii = length jj then Inr (map2 p ii jj) else Inl TensorError)"

text \<open>
  \<open>out.scatter_add_(1, index, src)\<close>: \<open>out[index[k]] += src[k]\<close> for every \<open>k\<close>. torch raises
  when an index is outside \<open>[0, size)\<close> or when \<open>index\<close> is longer than \<open>src\<close>.
\<close>

fun scatter_add_inplace :: "'a::comm_monoid_add list \<Rightarrow> int list \<Rightarrow> 'a list \<Rightarrow> error + 'a list" where
  "scatter_add_inplace out [] src = Inr out"
| "scatter_add_inplace out (i # idx) [] = Inl TensorError"
| "scatter_add_inplace out (i # idx) (x # src) =
     (if 0 \<le> i \<and> i < int (length out)
      then scatter_add_inplace (out[nat i := out ! nat i + x]) idx src
      else Inl TensorError)"

text \<open>
  \<open>torch_scatter.scatter_sum(src, index, dim=1, dim_size=n)\<close>: a zero tensor with \<open>n\<close>
  blocks, then \<open>scatter_add_\<close> (\<open>scatter_add_inplace\<close> here). The index is expanded to the shape of \<open>src\<close> first, which
  fails when the two lengths differ (an index of one element would be repeated; no call
  of the sources passes one with a longer \<open>src\<close>).
\<close>

definition scatter_sum :: "'a::comm_monoid_add list \<Rightarrow> int list \<Rightarrow> int \<Rightarrow> error + 'a list" where
  "scatter_sum src index dim_size =
     (if dim_size < 0 \<or> length index \<noteq> length src then Inl TensorError
      else scatter_add_inplace (replicate (nat dim_size) 0) index src)"

definition safe_scatter_add_mat ::
  "'a::comm_monoid_add list \<Rightarrow> int list \<Rightarrow> int list \<Rightarrow> int \<Rightarrow> int \<Rightarrow> error + 'a list" where
  "safe_scatter_add_mat A ii jj n m =
     and_then (mask2 (\<lambda>i j. 0 \<le> i \<and> 0 \<le> j \<and> i < n \<and> j < m) ii jj) (\<lambda>v.
     and_then (mask_select v A) (\<lambda>Av.
     and_then (mask_select v ii) (\<lambda>iv.
     and_then (mask_select v jj) (\<lambda>jv.
       scatter_sum Av (map2 (\<lambda>i j. i * m + j) iv jv) (n * m)))))"

definition safe_scatter_add_vec :: "'a::comm_monoid_add list \<Rightarrow> int list \<Rightarrow> int \<Rightarrow> error + 'a list" where
  "safe_scatter_add_vec b ii n =
     (let v = map (\<lambda>i. 0 \<le> i \<and> i < n) ii in
      and_then (mask_select v b) (\<lambda>bv.
      and_then (mask_select v ii) (\<lambda>iv.
        scatter_sum bv iv n)))"

text \<open>
  The in-place variants add into the buffer they are given and return it here. Their
  arguments \<open>B\<close> and \<open>D\<close> (batch size and block size) only shape the index and are left out.
\<close>

definition safe_scatter_add_mat_inplace ::
  "'a::comm_monoid_add list \<Rightarrow> 'a list \<Rightarrow> int list \<Rightarrow> int list \<Rightarrow> int \<Rightarrow> error + 'a list" where
  "safe_scatter_add_mat_inplace H data ii jj M =
     and_then (mask2 (\<lambda>i j. 0 \<le> i \<and> 0 \<le> j) ii jj) (\<lambda>v.
     and_then (mask_select v ii) (\<lambda>iv.
     and_then (mask_select v jj) (\<lambda>jv.
     and_then (mask_select v data) (\<lambda>dv.
       scatter_add_inplace H (map2 (\<lambda>i j. i * M + j) iv jv) dv))))"

definition safe_scatter_add_vec_inplace ::
  "'a::comm_monoid_add list \<Rightarrow> 'a list \<Rightarrow> int list \<Rightarrow> error + 'a list" where
  "safe_scatter_add_vec_inplace b data ii =
     (let v = map (\<lambda>i. 0 \<le> i) ii in
      and_then (mask_select v ii) (\<lambda>iv.
      and_then (mask_select v data) (\<lambda>dv.
        scatter_add_inplace b iv dv)))"

section \<open>Values\<close>

text \<open>
  A per-pixel map of one keyframe or edge (a disparity map, a damping map, a diagonal
  structure block): one real for each pixel \<open>'x\<close>. The image size is the same for every
  tensor of a call, so it is a type; flattening \<open>(h, w)\<close> to \<open>h * w\<close> does not show.
  Disparities are reals here: rounding is not modelled.
\<close>

datatype 'x img = Img (px: "'x \<Rightarrow> real")

instantiation img :: (type) comm_monoid_add
begin

definition zero_img :: "'x img" where
  "zero_img = Img (\<lambda>p. 0)"

definition plus_img :: "'x img \<Rightarrow> 'x img \<Rightarrow> 'x img" where
  "plus_img a b = Img (\<lambda>p. px a p + px b p)"

instance
  by standard (simp_all add: zero_img_def plus_img_def fun_eq_iff)

end

definition img_map :: "(real \<Rightarrow> real) \<Rightarrow> 'x img \<Rightarrow> 'x img" where
  "img_map f a = Img (\<lambda>p. f (px a p))"

definition img_map2 :: "(real \<Rightarrow> real \<Rightarrow> real) \<Rightarrow> 'x img \<Rightarrow> 'x img \<Rightarrow> 'x img" where
  "img_map2 f a b = Img (\<lambda>p. f (px a p) (px b p))"

text \<open>
  An entry of a pose update: the solvers work in floating point, and \<open>MoBA\<close> tests
  their result for NaN, so the special values are kept apart from the finite ones.
\<close>

datatype fl = Fin real | PInf | NInf | NaN

definition isnan :: "fl \<Rightarrow> bool" where
  "isnan x = (x = NaN)"

definition isfinite :: "fl \<Rightarrow> bool" where
  "isfinite x = (case x of Fin r \<Rightarrow> True | _ \<Rightarrow> False)"

definition zeros_like :: "fl list \<Rightarrow> fl list" where
  "zeros_like dx = map (\<lambda>x. Fin 0) dx"

text \<open>
  The tensors a solve mutates in place: the poses (elements of a Lie group \<open>'p\<close>) and
  disparity maps of all keyframes, and the scale and shift of the prior of each keyframe
  (\<open>None\<close> when the caller passes none).
\<close>

record ('p, 'x) store =
  poses :: "'p list"
  disps :: "'x img list"
  scales :: "real list option"
  shifts :: "real list option"

section \<open>Tensor operations\<close>

text \<open>An elementwise operation of two tensors whose dimension 1 is broadcast.\<close>

definition broadcast2 :: "('a \<Rightarrow> 'b \<Rightarrow> 'c) \<Rightarrow> 'a list \<Rightarrow> 'b list \<Rightarrow> error + 'c list" where
  "broadcast2 f xs ys =
     (if length xs = length ys then Inr (map2 f xs ys)
      else if length xs = 1 then Inr (map (f (hd xs)) ys)
      else if length ys = 1 then Inr (map (\<lambda>x. f x (hd ys)) xs)
      else Inl TensorError)"

text \<open>\<open>A[:, kx]\<close> with an index tensor of frame numbers.\<close>

definition index_select :: "'a list \<Rightarrow> nat list \<Rightarrow> error + 'a list" where
  "index_select xs ks =
     (if list_all (\<lambda>k. k < length xs) ks then Inr (map (nth xs) ks) else Inl TensorError)"

primrec index_of :: "'a \<Rightarrow> 'a list \<Rightarrow> nat" where
  "index_of x [] = 0"
| "index_of x (y # ys) = (if x = y then 0 else Suc (index_of x ys))"

text \<open>\<open>torch.unique(ii, return_inverse=True)\<close>: the sorted distinct values, and for each
  entry of \<open>ii\<close> its position among them.\<close>

definition torch_unique :: "nat list \<Rightarrow> nat list \<times> int list" where
  "torch_unique ii = (let kx = sort (remdups ii) in (kx, map (\<lambda>i. int (index_of i kx)) ii))"

text \<open>\<open>all[:, :t1] = new\<close>: the window is replaced, the rest stays; the shapes must agree.\<close>

definition assign_window :: "'a list \<Rightarrow> nat \<Rightarrow> 'a list \<Rightarrow> error + 'a list" where
  "assign_window all t1 new =
     (if length new = length (take t1 all) then Inr (new @ drop t1 all) else Inl TensorError)"

text \<open>\<open>additive_retr\<close> (lines 95 to 103): \<open>disps + scatter_sum(dz, ii, dim_size = disps.shape[1])\<close>.\<close>

definition additive_retr :: "'a::comm_monoid_add list \<Rightarrow> 'a list \<Rightarrow> nat list \<Rightarrow> error + 'a list" where
  "additive_retr ds dz ii =
     and_then (scatter_sum dz (map int ii) (int (length ds))) (\<lambda>s. Inr (map2 (+) ds s))"

text \<open>\<open>C_exp[:, mask] = C\<close>: the blocks of \<open>src\<close> replace, in order, the blocks of \<open>dst\<close> the mask
  selects; there must be as many.\<close>

fun mask_assign :: "bool list \<Rightarrow> 'a list \<Rightarrow> 'a list \<Rightarrow> error + 'a list" where
  "mask_assign [] [] [] = Inr []"
| "mask_assign (True # ms) (d # ds) (x # xs) =
     and_then (mask_assign ms ds xs) (\<lambda>r. Inr (x # r))"
| "mask_assign (False # ms) (d # ds) xs =
     and_then (mask_assign ms ds xs) (\<lambda>r. Inr (d # r))"
| "mask_assign ms ds xs = Inl TensorError"

text \<open>\<open>rearrange(dx, "b (n1 d1) 1 -> b n1 d1", n1=m, d1=d)\<close>.\<close>

definition rearrange_rows :: "'a list \<Rightarrow> int \<Rightarrow> nat \<Rightarrow> error + 'a list list" where
  "rearrange_rows dx m d =
     (if m < 0 \<or> int (length dx) \<noteq> m * int d then Inl TensorError
      else Inr (map (\<lambda>k. take d (drop (k * d) dx)) [0..<nat m]))"

section \<open>Bundle adjustment engine (\<open>src/geom/ba.py\<close>)\<close>

text \<open>
  The dense blocks of the edges, as \<open>get_hessian_and_rhs\<close> returns them: pose blocks,
  right-hand sides and pose-structure blocks are values of a commutative monoid \<open>'b\<close>,
  the diagonal structure blocks \<open>Ck\<close> and \<open>wk\<close> are per-pixel maps.
\<close>

record ('x, 'b) edge_blocks =
  Hii :: "'b list"
  Hij :: "'b list"
  Hji :: "'b list"
  Hjj :: "'b list"
  Eik :: "'b list"
  Ejk :: "'b list"
  Ck :: "'x img list"
  vi :: "'b list"
  vj :: "'b list"
  wk :: "'x img list"

text \<open>
  The numerical kernels are parameters of the model, so every theorem below holds for
  whatever they compute; each may raise. \<open>projective_ops.py\<close> and \<open>chol.py\<close> are not among
  the sources at hand, and the dense linear algebra of \<open>ba.py\<close> is floating point.
  \<^item> \<open>retr\<close>: the retraction \<open>SE3.retr\<close> of one pose by one tangent vector;
  \<open>manifold_dim\<close> is 6 for SE3.
  \<^item> \<open>hessian_and_rhs obs poses disps ii jj\<close>: \<open>projective_transform\<close> followed by
  \<open>get_hessian_and_rhs\<close>; \<open>obs\<close> stands for \<open>target\<close>, \<open>weight\<close> and the intrinsics.
  \<^item> \<open>CholeskySolver ep lm H v\<close> and \<open>LUSolver ep lm H v\<close>: \<open>solver.apply\<close> on the system
  damped by \<open>H + (ep + lm * H) * I\<close>.
  \<^item> \<open>schur_block_solve H E C v w ep lm structure_only\<close>: the pose update (one row for
  each unfixed pose) and the disparity update (one map for each node of \<open>kx\<close>).
  \<^item> \<open>prior_solve H E C v w Js Jo r2 alpha ep lm\<close>: \<open>get_regularizor_hessians\<close>,
  \<open>get_augmented_hessian_and_rhs_full\<close> and \<open>schur_solve\<close> with the LU solver, cut into
  \<open>dx\<close>, \<open>ds\<close>, \<open>do\<close> and \<open>dz\<close>.
  \<^item> \<open>prior_structure_solve Js Jo r2 alpha C w ep lm\<close>: \<open>get_regularizor_hessians\<close>, the
  concatenations and \<open>schur_solve\<close>, returning \<open>dso\<close> and \<open>dz\<close>.
\<close>

record ('p, 'x, 'b, 'o) numerics =
  manifold_dim :: nat
  retr :: "'p \<Rightarrow> fl list \<Rightarrow> 'p"
  hessian_and_rhs ::
    "'o \<Rightarrow> 'p list \<Rightarrow> 'x img list \<Rightarrow> nat list \<Rightarrow> nat list \<Rightarrow> error + ('x, 'b) edge_blocks"
  CholeskySolver :: "real \<Rightarrow> real \<Rightarrow> 'b list \<Rightarrow> 'b list \<Rightarrow> error + fl list"
  LUSolver :: "real \<Rightarrow> real \<Rightarrow> 'b list \<Rightarrow> 'b list \<Rightarrow> error + fl list"
  schur_block_solve ::
    "'b list \<Rightarrow> 'b list \<Rightarrow> 'x img list \<Rightarrow> 'b list \<Rightarrow> 'x img list \<Rightarrow> real \<Rightarrow> real \<Rightarrow> bool
     \<Rightarrow> error + (fl list list \<times> 'x img list)"
  prior_solve ::
    "'b list \<Rightarrow> 'b list \<Rightarrow> 'x img list \<Rightarrow> 'b list \<Rightarrow> 'x img list
     \<Rightarrow> 'x img list list \<Rightarrow> 'x img list list \<Rightarrow> 'x img list \<Rightarrow> real \<Rightarrow> real \<Rightarrow> real
     \<Rightarrow> error + (fl list list \<times> real list \<times> real list \<times> 'x img list)"
  prior_structure_solve ::
    "'x img list list \<Rightarrow> 'x img list list \<Rightarrow> 'x img list \<Rightarrow> real
     \<Rightarrow> 'x img list \<Rightarrow> 'x img list \<Rightarrow> real \<Rightarrow> real
     \<Rightarrow> error + (real list \<times> 'x img list)"

text \<open>\<open>get_keyframe_window\<close> (lines 122 to 130), together with the unpacking of its result
  into six names by \<open>BA_prior\<close> and \<open>BA_prior_no_motion\<close>, which fails when the prior, the
  scales or the shifts are \<open>None\<close>. The intrinsics are part of \<open>obs\<close>.\<close>

definition get_keyframe_window ::
  "('p, 'x) store \<Rightarrow> nat \<Rightarrow> 'x img list option
   \<Rightarrow> error + ('x img list \<times> 'p list \<times> 'x img list \<times> real list \<times> real list)" where
  "get_keyframe_window st t1 disps_sens =
     (case (disps_sens, scales st, shifts st) of
        (Some sens, Some sc, Some sh) \<Rightarrow>
          Inr (take t1 (disps st), take t1 (poses st), take t1 sens, take t1 sc, take t1 sh)
      | _ \<Rightarrow> Inl ValueError)"

text \<open>Lines 352 to 355 (and 451 to 454, 627 to 630): the poses before \<open>fixedp\<close> are kept,
  the others are retracted by the rows of \<open>dx\<close>.\<close>

definition retr_unfixed ::
  "('p, 'x, 'b, 'o) numerics \<Rightarrow> 'p list \<Rightarrow> nat \<Rightarrow> fl list list \<Rightarrow> error + 'p list" where
  "retr_unfixed num poses_w fixedp dx =
     (let poses1 = take fixedp poses_w; poses2 = drop fixedp poses_w in
      if length dx = length poses2 then Inr (poses1 @ map2 (retr num) poses2 dx)
      else Inl TensorError)"

subsection \<open>Motion-only\<close>

text \<open>Lines 324 to 334: the pose system of the window, assembled in place.\<close>

definition MoBA_system ::
  "('x, 'b::comm_monoid_add) edge_blocks \<Rightarrow> int list \<Rightarrow> int list \<Rightarrow> int
   \<Rightarrow> error + ('b list \<times> 'b list)" where
  "MoBA_system bl ii jj m =
     and_then (safe_scatter_add_mat_inplace (replicate (nat (m * m)) 0) (Hii bl) ii ii m) (\<lambda>H1.
     and_then (safe_scatter_add_mat_inplace H1 (Hij bl) ii jj m) (\<lambda>H2.
     and_then (safe_scatter_add_mat_inplace H2 (Hji bl) jj ii m) (\<lambda>H3.
     and_then (safe_scatter_add_mat_inplace H3 (Hjj bl) jj jj m) (\<lambda>H4.
     if m < 0 then Inl TensorError
     else
       and_then (safe_scatter_add_vec_inplace (replicate (nat m) 0) (vi bl) ii) (\<lambda>v1.
       and_then (safe_scatter_add_vec_inplace v1 (vj bl) jj) (\<lambda>v2.
         Inr (H4, v2)))))))"

text \<open>Lines 340 to 349: Cholesky, then LU when the result has a NaN, then zeros.\<close>

definition MoBA_solve ::
  "('p, 'x, 'b, 'o) numerics \<Rightarrow> real \<Rightarrow> real \<Rightarrow> 'b list \<Rightarrow> 'b list \<Rightarrow> error + fl list" where
  "MoBA_solve num ep lm H v =
     and_then (CholeskySolver num ep lm H v) (\<lambda>dx.
       if list_ex isnan dx then
         and_then (LUSolver num ep lm H v) (\<lambda>dx.
           if list_ex isnan dx then Inr (zeros_like dx) else Inr dx)
       else Inr dx)"

definition MoBA ::
  "('p, 'x, 'b::comm_monoid_add, 'o) numerics \<Rightarrow> 'o \<Rightarrow> ('p, 'x) store \<Rightarrow> nat list \<Rightarrow> nat list
   \<Rightarrow> nat \<Rightarrow> nat \<Rightarrow> real \<Rightarrow> real \<Rightarrow> error option \<times> ('p, 'x) store" where
  "MoBA num obs st ii jj t0 t1 ep lm =
     (let disps_w = take t1 (disps st);
          poses_w = take t1 (poses st);
          fixedp = max t0 1;
          m = int (length disps_w) - int fixedp;
          d = manifold_dim num;
          ii' = map (\<lambda>i. int i - int fixedp) ii;
          jj' = map (\<lambda>j. int j - int fixedp) jj
      in case
           and_then (hessian_and_rhs num obs poses_w disps_w ii jj) (\<lambda>bl.
           and_then (MoBA_system bl ii' jj' m) (\<lambda>(H, v).
           and_then (MoBA_solve num ep lm H v) (\<lambda>dx.
           and_then (rearrange_rows dx m d) (\<lambda>dx.
           and_then (retr_unfixed num poses_w fixedp dx) (\<lambda>ps.
             assign_window (poses st) t1 ps)))))
         of Inl e \<Rightarrow> (Some e, st)
          | Inr ps \<Rightarrow> (None, st\<lparr>poses := ps\<rparr>))"

subsection \<open>Joint and structure-only\<close>

text \<open>\<open>scatter_pose_structure\<close> (lines 255 to 279).\<close>

definition scatter_pose_structure ::
  "('x, 'b::comm_monoid_add) edge_blocks \<Rightarrow> int list \<Rightarrow> int list \<Rightarrow> int list \<Rightarrow> int \<Rightarrow> int
   \<Rightarrow> error + ('b list \<times> 'b list \<times> 'x img list \<times> 'b list \<times> 'x img list)" where
  "scatter_pose_structure bl ii jj kk m n =
     and_then (safe_scatter_add_mat_inplace (replicate (nat (m * m)) 0) (Hii bl) ii ii m) (\<lambda>H1.
     and_then (safe_scatter_add_mat_inplace H1 (Hij bl) ii jj m) (\<lambda>H2.
     and_then (safe_scatter_add_mat_inplace H2 (Hji bl) jj ii m) (\<lambda>H3.
     and_then (safe_scatter_add_mat_inplace H3 (Hjj bl) jj jj m) (\<lambda>H4.
     if m < 0 then Inl TensorError
     else
       and_then (safe_scatter_add_vec (vi bl) ii m) (\<lambda>v1.
       and_then (safe_scatter_add_vec (vj bl) jj m) (\<lambda>v2.
       and_then (safe_scatter_add_mat (Eik bl) ii kk m n) (\<lambda>E1.
       and_then (safe_scatter_add_mat (Ejk bl) jj kk m n) (\<lambda>E2.
       and_then (safe_scatter_add_vec (Ck bl) kk n) (\<lambda>C.
       and_then (safe_scatter_add_vec (wk bl) kk n) (\<lambda>w.
         Inr (H4, map2 (+) E1 E2, C, map2 (+) v1 v2, w)))))))))))"

text \<open>
  Lines 429 to 436: the structure block and right-hand side with the prior, or with the
  damping alone when there is no prior. \<open>m\<close> is 1 where the prior is positive, else 0.
\<close>

definition apply_prior ::
  "'x img list \<Rightarrow> 'x img list \<Rightarrow> 'x img list \<Rightarrow> real \<Rightarrow> 'x img list \<Rightarrow> 'x img list option
   \<Rightarrow> nat list \<Rightarrow> error + ('x img list \<times> 'x img list)" where
  "apply_prior C w eta alpha disps_w disps_sens kx =
     (case disps_sens of
        Some sens \<Rightarrow>
          and_then (index_select sens kx) (\<lambda>sk.
          (let m = map (img_map (\<lambda>s. if s > 0 then 1 else 0)) sk in
          and_then (broadcast2 (+) C (map (img_map (\<lambda>x. alpha * x)) m)) (\<lambda>C1.
          and_then (broadcast2 (img_map2 (\<lambda>a b. a * b)) (map (img_map (\<lambda>x. 1 - x)) m) eta) (\<lambda>me.
          and_then (broadcast2 (+) C1 me) (\<lambda>C2.
          and_then (index_select disps_w kx) (\<lambda>dk.
          and_then (broadcast2 (img_map2 (-)) dk sk) (\<lambda>df.
          and_then (broadcast2 (img_map2 (\<lambda>a b. a * b)) (map (img_map (\<lambda>x. x * alpha)) m) df) (\<lambda>mw.
          and_then (broadcast2 (img_map2 (-)) w mw) (\<lambda>w1.
            Inr (map (img_map (\<lambda>c. c + 1 / 10000000)) C2, w1))))))))))
      | None \<Rightarrow>
          and_then (broadcast2 (+) C eta) (\<lambda>C1.
            Inr (map (img_map (\<lambda>c. c + 1 / 10000000)) C1, w)))"

text \<open>Lines 411 to 449: the nodes \<open>kx\<close> that are updated, the pose update and the disparity
  update (\<open>rig\<close> is 1).\<close>

definition BA_update ::
  "('p, 'x, 'b::comm_monoid_add, 'o) numerics \<Rightarrow> 'o \<Rightarrow> 'p list \<Rightarrow> 'x img list
   \<Rightarrow> 'x img list option \<Rightarrow> nat list \<Rightarrow> nat list \<Rightarrow> nat \<Rightarrow> 'x img list \<Rightarrow> real \<Rightarrow> real \<Rightarrow> real
   \<Rightarrow> bool \<Rightarrow> error + (nat list \<times> fl list list \<times> 'x img list)" where
  "BA_update num obs poses_w disps_w disps_sens ii jj fixedp eta alpha ep lm structure_only =
     and_then (hessian_and_rhs num obs poses_w disps_w ii jj) (\<lambda>bl.
     let (kx, kk) = torch_unique ii;
         N = int (length kx);
         M = int (length disps_w) - int fixedp;
         ii' = map (\<lambda>i. int i - int fixedp) ii;
         jj' = map (\<lambda>j. int j - int fixedp) jj
     in
     and_then (scatter_pose_structure bl ii' jj' kk M N) (\<lambda>(H, E, C, v, w).
     and_then (apply_prior C w eta alpha disps_w disps_sens kx) (\<lambda>(C, w).
     and_then (schur_block_solve num H E C v w ep lm structure_only) (\<lambda>(dx, dz).
       if length dz = length kx then Inr (kx, dx, dz) else Inl TensorError))))"

text \<open>
  \<open>BA\<close> (lines 360 to 457). The joint branch writes the poses first and the disparities
  second, so an error of the second write leaves the first in place.
\<close>

definition BA ::
  "('p, 'x, 'b::comm_monoid_add, 'o) numerics \<Rightarrow> 'o \<Rightarrow> ('p, 'x) store \<Rightarrow> nat list \<Rightarrow> nat list
   \<Rightarrow> nat \<Rightarrow> nat \<Rightarrow> 'x img list \<Rightarrow> 'x img list option \<Rightarrow> real \<Rightarrow> real \<Rightarrow> real \<Rightarrow> bool
   \<Rightarrow> error option \<times> ('p, 'x) store" where
  "BA num obs st ii jj t0 t1 eta all_disps_sens alpha ep lm structure_only =
     (let disps_w = take t1 (disps st);
          poses_w = take t1 (poses st);
          disps_sens = map_option (take t1) all_disps_sens;
          fixedp = max t0 1
      in case BA_update num obs poses_w disps_w disps_sens ii jj fixedp eta alpha ep lm
                structure_only of
           Inl e \<Rightarrow> (Some e, st)
         | Inr (kx, dx, dz) \<Rightarrow>
             if structure_only then
               (case and_then (additive_retr disps_w dz kx) (assign_window (disps st) t1) of
                  Inl e \<Rightarrow> (Some e, st)
                | Inr ds \<Rightarrow> (None, st\<lparr>disps := ds\<rparr>))
             else
               (case and_then (retr_unfixed num poses_w fixedp dx)
                       (assign_window (poses st) t1) of
                  Inl e \<Rightarrow> (Some e, st)
                | Inr ps \<Rightarrow>
                    (case and_then (additive_retr disps_w dz kx)
                            (assign_window (disps st) t1) of
                       Inl e \<Rightarrow> (Some e, st\<lparr>poses := ps\<rparr>)
                     | Inr ds \<Rightarrow> (None, st\<lparr>poses := ps, disps := ds\<rparr>))))"

subsection \<open>Prior variants\<close>

text \<open>\<open>disps_sens[:, kx] * scales[:, kx, None] + shifts[:, kx, None]\<close> (lines 606 and 708).\<close>

definition scaled_prior ::
  "'x img list \<Rightarrow> real list \<Rightarrow> real list \<Rightarrow> nat list \<Rightarrow> error + 'x img list" where
  "scaled_prior sens sc sh kx =
     and_then (index_select sens kx) (\<lambda>sk.
     and_then (index_select sc kx) (\<lambda>ck.
     and_then (index_select sh kx) (\<lambda>hk.
       Inr (map (\<lambda>(s, c, h). img_map (\<lambda>x. x * c + h) s) (zip sk (zip ck hk))))))"

text \<open>
  \<open>get_regularizor_jacobians\<close> (lines 518 to 538). The Jacobian of the prior residual with
  respect to the scales has one row for each pixel of each node and one column for each
  node; here \<open>Js ! k ! j\<close> is the part of column \<open>j\<close> on the rows of node \<open>k\<close>. The scatter
  pattern of the source puts \<open>- prior\<close> of node \<open>k\<close> in column \<open>k\<close> and nothing elsewhere;
  \<open>Jo\<close> has \<open>- 1\<close> there.
\<close>

definition get_regularizor_jacobians ::
  "'x img list \<Rightarrow> 'x img list list \<times> 'x img list list" where
  "get_regularizor_jacobians sens =
     (let n = length sens in
      (map (\<lambda>k. map (\<lambda>j. if j = k then img_map uminus (sens ! k) else 0) [0..<n]) [0..<n],
       map (\<lambda>k. map (\<lambda>j. if j = k then Img (\<lambda>p. - 1) else 0) [0..<n]) [0..<n]))"

text \<open>\<open>J[:, :, ~mask] = 0\<close> (lines 717 to 722).\<close>

definition zero_columns :: "bool list \<Rightarrow> 'x img list list \<Rightarrow> 'x img list list" where
  "zero_columns keep J = map (\<lambda>row. map2 (\<lambda>k b. if k then b else 0) keep row) J"

text \<open>
  \<open>BA_prior\<close>, lines 579 to 624: the system and its solution. The pose system is the one
  of \<open>BA\<close>; the structure block gets \<open>alpha + eta\<close>.
\<close>

definition BA_prior_update ::
  "('p, 'x, 'b::comm_monoid_add, 'o) numerics \<Rightarrow> 'o \<Rightarrow> 'p list \<Rightarrow> 'x img list \<Rightarrow> 'x img list
   \<Rightarrow> real list \<Rightarrow> real list \<Rightarrow> nat list \<Rightarrow> nat list \<Rightarrow> nat \<Rightarrow> 'x img list \<Rightarrow> real \<Rightarrow> real
   \<Rightarrow> real \<Rightarrow> error + (nat list \<times> fl list list \<times> real list \<times> real list \<times> 'x img list)" where
  "BA_prior_update num obs poses_w disps_w sens sc sh ii jj fixedp eta alpha ep lm =
     and_then (hessian_and_rhs num obs poses_w disps_w ii jj) (\<lambda>bl.
     let (kx, kk) = torch_unique ii;
         n = int (length kx);
         m = int (length disps_w) - int fixedp;
         ii' = map (\<lambda>i. int i - int fixedp) ii;
         jj' = map (\<lambda>j. int j - int fixedp) jj
     in
     and_then (scatter_pose_structure bl ii' jj' kk m n) (\<lambda>(H, E, C, v, w).
     and_then (broadcast2 (+) (map (img_map (\<lambda>c. c + alpha * 1)) C) eta) (\<lambda>C.
     and_then (scaled_prior sens sc sh kx) (\<lambda>sp.
     and_then (index_select disps_w kx) (\<lambda>dk.
     and_then (broadcast2 (img_map2 (-)) dk sp) (\<lambda>r2.
     and_then (broadcast2 (img_map2 (-)) w (map (img_map (\<lambda>x. alpha * x)) r2)) (\<lambda>w.
     and_then (index_select sens kx) (\<lambda>sk.
     let (Js, Jo) = get_regularizor_jacobians sk in
     and_then (prior_solve num H E C v w Js Jo r2 alpha ep lm) (\<lambda>(dx, ds, do, dz).
       if length dz = length kx then Inr (kx, dx, ds, do, dz) else Inl TensorError)))))))))"

text \<open>Lines 632 to 636 and 738 to 740: the writes of the disparities, scales and shifts,
  one after the other; an error leaves the earlier writes in place.\<close>

definition write_structure ::
  "('p, 'x) store \<Rightarrow> nat \<Rightarrow> 'x img list \<Rightarrow> real list \<Rightarrow> real list \<Rightarrow> nat list
   \<Rightarrow> 'x img list \<Rightarrow> real list \<Rightarrow> real list \<Rightarrow> error option \<times> ('p, 'x) store" where
  "write_structure st t1 disps_w sc sh kx dz ds do =
     (case and_then (additive_retr disps_w dz kx) (assign_window (disps st) t1) of
        Inl e \<Rightarrow> (Some e, st)
      | Inr d' \<Rightarrow>
          let st1 = st\<lparr>disps := d'\<rparr> in
          (case and_then (additive_retr sc ds kx)
                  (assign_window (case scales st of Some a \<Rightarrow> a | None \<Rightarrow> []) t1) of
             Inl e \<Rightarrow> (Some e, st1)
           | Inr s' \<Rightarrow>
               let st2 = st1\<lparr>scales := Some s'\<rparr> in
               (case and_then (additive_retr sh do kx)
                       (assign_window (case shifts st of Some a \<Rightarrow> a | None \<Rightarrow> []) t1) of
                  Inl e \<Rightarrow> (Some e, st2)
                | Inr h' \<Rightarrow> (None, st2\<lparr>shifts := Some h'\<rparr>))))"

definition BA_prior ::
  "('p, 'x, 'b::comm_monoid_add, 'o) numerics \<Rightarrow> 'o \<Rightarrow> ('p, 'x) store \<Rightarrow> nat list \<Rightarrow> nat list
   \<Rightarrow> nat \<Rightarrow> nat \<Rightarrow> 'x img list \<Rightarrow> 'x img list option \<Rightarrow> real \<Rightarrow> real \<Rightarrow> real
   \<Rightarrow> error option \<times> ('p, 'x) store" where
  "BA_prior num obs st ii jj t0 t1 eta all_disps_sens ep lm alpha =
     (case get_keyframe_window st t1 all_disps_sens of
        Inl e \<Rightarrow> (Some e, st)
      | Inr (disps_w, poses_w, sens, sc, sh) \<Rightarrow>
          let fixedp = max t0 1 in
          (case BA_prior_update num obs poses_w disps_w sens sc sh ii jj fixedp eta alpha ep lm of
             Inl e \<Rightarrow> (Some e, st)
           | Inr (kx, dx, ds, do, dz) \<Rightarrow>
               (case and_then (retr_unfixed num poses_w fixedp dx)
                       (assign_window (poses st) t1) of
                  Inl e \<Rightarrow> (Some e, st)
                | Inr ps \<Rightarrow> write_structure (st\<lparr>poses := ps\<rparr>) t1 disps_w sc sh kx dz ds do)))"

text \<open>
  \<open>BA_prior_no_motion\<close>, lines 667 to 723: the system handed to the solver. It returns the
  expanded node list \<open>kx_exp\<close>, the structure block and right-hand side, the two Jacobians
  of the prior and the prior residual \<open>r2\<close>. The shifted \<open>m\<close>, \<open>ii\<close> and \<open>jj\<close> of lines 689
  to 691 are not used by the source afterwards.
\<close>

definition prior_no_motion_system ::
  "('p, 'x, 'b, 'o) numerics \<Rightarrow> 'o \<Rightarrow> 'p list \<Rightarrow> 'x img list \<Rightarrow> 'x img list
   \<Rightarrow> real list \<Rightarrow> real list \<Rightarrow> nat list \<Rightarrow> nat list \<Rightarrow> nat \<Rightarrow> nat \<Rightarrow> 'x img list \<Rightarrow> real
   \<Rightarrow> error + (nat list \<times> 'x img list \<times> 'x img list \<times> 'x img list list
               \<times> 'x img list list \<times> 'x img list)" where
  "prior_no_motion_system num obs poses_w disps_w sens sc sh ii jj t0 t1 eta alpha =
     and_then (hessian_and_rhs num obs poses_w disps_w ii jj) (\<lambda>bl.
     let (kx, kk) = torch_unique ii;
         ts = [t0..<t1];
         (kx_exp, kk_exp) = torch_unique (ts @ ii);
         n = length kx;
         n_exp = length kx_exp;
         empty_nodes = int n_exp - int n
     in
     and_then (safe_scatter_add_vec (Ck bl) kk (int n)) (\<lambda>C.
     and_then (safe_scatter_add_vec (wk bl) kk (int n)) (\<lambda>w.
     let non_empty_nodes = map (\<lambda>k. k \<in> set kx) kx_exp in
     and_then (mask_assign non_empty_nodes (replicate n_exp 0) C) (\<lambda>C_exp.
     and_then (mask_assign non_empty_nodes (replicate n_exp 0) w) (\<lambda>w_exp.
     and_then (broadcast2 (+) (map (img_map (\<lambda>c. c + alpha * 1)) C_exp) eta) (\<lambda>C_exp.
     and_then (scaled_prior sens sc sh kx_exp) (\<lambda>sp.
     and_then (index_select disps_w kx_exp) (\<lambda>dk.
     and_then (broadcast2 (img_map2 (-)) dk sp) (\<lambda>r2.
     and_then (mask_select non_empty_nodes w_exp) (\<lambda>wn.
     and_then (mask_select non_empty_nodes r2) (\<lambda>rn.
     and_then (broadcast2 (img_map2 (-)) wn (map (img_map (\<lambda>x. alpha * x)) rn)) (\<lambda>wn.
     and_then (mask_assign non_empty_nodes w_exp wn) (\<lambda>w_exp.
     and_then (index_select sens kx_exp) (\<lambda>sk.
     let (Js_exp, Jo_exp) = get_regularizor_jacobians sk;
         Js_exp = (if empty_nodes > 0 then zero_columns non_empty_nodes Js_exp else Js_exp);
         Jo_exp = (if empty_nodes > 0 then zero_columns non_empty_nodes Jo_exp else Jo_exp)
     in Inr (kx_exp, C_exp, w_exp, Js_exp, Jo_exp, r2)))))))))))))))"

definition BA_prior_no_motion ::
  "('p, 'x, 'b, 'o) numerics \<Rightarrow> 'o \<Rightarrow> ('p, 'x) store \<Rightarrow> nat list \<Rightarrow> nat list
   \<Rightarrow> nat \<Rightarrow> nat \<Rightarrow> 'x img list \<Rightarrow> 'x img list option \<Rightarrow> real \<Rightarrow> real \<Rightarrow> real
   \<Rightarrow> error option \<times> ('p, 'x) store" where
  "BA_prior_no_motion num obs st ii jj t0 t1 eta all_disps_sens ep lm alpha =
     (case get_keyframe_window st t1 all_disps_sens of
        Inl e \<Rightarrow> (Some e, st)
      | Inr (disps_w, poses_w, sens, sc, sh) \<Rightarrow>
          (case
             and_then (prior_no_motion_system num obs poses_w disps_w sens sc sh ii jj t0 t1
                         eta alpha) (\<lambda>(kx_exp, C_exp, w_exp, Js_exp, Jo_exp, r2).
             and_then (prior_structure_solve num Js_exp Jo_exp r2 alpha C_exp w_exp ep lm)
               (\<lambda>(dso, dz).
                 let n_exp = length kx_exp in
                 if length dz = n_exp
                 then Inr (kx_exp, take n_exp dso, drop n_exp dso, dz)
                 else Inl TensorError))
           of Inl e \<Rightarrow> (Some e, st)
            | Inr (kx_exp, ds, do, dz) \<Rightarrow> write_structure st t1 disps_w sc sh kx_exp dz ds do))"

subsection \<open>The entry point\<close>

text \<open>\<open>disps.clamp(min=0.001)\<close>: the out-of-place clamp of torch, which returns a new tensor.\<close>

definition clamp_min :: "real \<Rightarrow> 'x img list \<Rightarrow> 'x img list" where
  "clamp_min lo ds = map (img_map (max lo)) ds"

text \<open>
  Lines 186 to 190. Every iteration calls the chosen variant, which mutates the store,
  and then evaluates \<open>disps.clamp(min=0.001)\<close> as a statement: the clamped tensor is bound
  to nothing and the store stays as the variant left it. An exception of the variant ends
  the loop with the writes made so far.
\<close>

fun ba_loop ::
  "(('p, 'x) store \<Rightarrow> error option \<times> ('p, 'x) store) \<Rightarrow> nat \<Rightarrow> ('p, 'x) store
   \<Rightarrow> error option \<times> ('p, 'x) store" where
  "ba_loop ba_function 0 st = (None, st)"
| "ba_loop ba_function (Suc i) st =
     (case ba_function st of
        (Some e, st') \<Rightarrow> (Some e, st')
      | (None, st') \<Rightarrow>
          (let clamped = clamp_min (1 / 1000) (disps st') in ba_loop ba_function i st'))"

text \<open>
  \<open>bundle_adjustment\<close> (lines 133 to 197). \<open>damping\<close> is passed on as \<open>eta\<close>. The rebinding of
  the local names \<open>poses\<close>, \<open>disps\<close>, \<open>scales\<close> and \<open>shifts\<close> after the loop changes no tensor.
\<close>

definition bundle_adjustment ::
  "('p, 'x, 'b::comm_monoid_add, 'o) numerics \<Rightarrow> 'o \<Rightarrow> 'x img list \<Rightarrow> ('p, 'x) store
   \<Rightarrow> nat list \<Rightarrow> nat list \<Rightarrow> nat \<Rightarrow> nat \<Rightarrow> 'x img list option \<Rightarrow> nat \<Rightarrow> real \<Rightarrow> real
   \<Rightarrow> bool \<Rightarrow> bool \<Rightarrow> bool \<Rightarrow> real \<Rightarrow> error option \<times> ('p, 'x) store" where
  "bundle_adjustment num obs damping st ii jj t0 t1 disps_sens iters lm ep
     structure_only motion_only scale_prior alpha =
     (if structure_only \<and> motion_only then (Some AssertionError, st)
      else if scale_prior \<and> disps_sens = None then (Some AssertionError, st)
      else if scale_prior \<and> (scales st = None \<or> shifts st = None) then (Some AttributeError, st)
      else
        ba_loop
          (if motion_only then (\<lambda>s. MoBA num obs s ii jj t0 t1 ep lm)
           else if scale_prior then
             (if structure_only
              then (\<lambda>s. BA_prior_no_motion num obs s ii jj t0 t1 damping disps_sens ep lm alpha)
              else (\<lambda>s. BA_prior num obs s ii jj t0 t1 damping disps_sens ep lm alpha))
           else (\<lambda>s. BA num obs s ii jj t0 t1 damping disps_sens alpha ep lm structure_only))
          iters st)"

section \<open>Process orchestrator (\<open>src/slam.py\<close>)\<close>

subsection \<open>RAM safeguard of the backend\<close>

text \<open>The two messages \<open>ram_safeguard_backend\<close> prints: the warning that the backend is
  deleted, and the note that it is instantiated again.\<close>

datatype event = DeletingBackend | ReinstantiatingBackend

text \<open>
  \<open>ram_safeguard_backend\<close> (lines 262 to 280). \<open>used_mem\<close> is the utilization that
  \<open>get_ram_usage\<close> samples, a real here; \<open>fresh\<close> is the instance \<open>BackendWrapper(cfg, self)\<close>
  constructs; \<open>backend\<close> is \<open>self.backend\<close>, \<open>None\<close> after a deletion. The result is the new
  \<open>self.backend\<close> and what was printed.
\<close>

definition ram_safeguard_backend ::
  "'b \<Rightarrow> real \<Rightarrow> real \<Rightarrow> real \<Rightarrow> 'b option \<Rightarrow> 'b option \<times> event list" where
  "ram_safeguard_backend fresh used_mem max_ram min_ram backend =
     (let (backend, log1) =
            (if used_mem > max_ram \<and> backend \<noteq> None then (None, [DeletingBackend])
             else (backend, []));
          (backend, log2) =
            (if backend = None \<and> used_mem \<le> min_ram
             then (Some fresh, [ReinstantiatingBackend])
             else (backend, []))
      in (backend, log1 @ log2))"

text \<open>
  One turn of the loop of \<open>global_ba\<close> (lines 286 to 295): the safeguard is called with
  \<open>max_ram = self.max_ram_usage\<close> and the default \<open>min_ram = 0.5\<close>, then the backend runs
  when there is one. The result is the new backend, what was printed, and whether bundle
  adjustment ran in this turn.
\<close>

definition global_ba_cycle ::
  "'b \<Rightarrow> real \<Rightarrow> real \<Rightarrow> 'b option \<Rightarrow> 'b option \<times> event list \<times> bool" where
  "global_ba_cycle fresh max_ram_usage used_mem backend =
     (let (backend, msgs) = ram_safeguard_backend fresh used_mem max_ram_usage (1 / 2) backend
      in (backend, msgs, backend \<noteq> None))"

text \<open>The loop over the utilizations sampled in successive turns: the backend at the end,
  and for each turn what was printed and whether bundle adjustment ran.\<close>

fun global_ba_loop ::
  "'b \<Rightarrow> real \<Rightarrow> real list \<Rightarrow> 'b option \<Rightarrow> 'b option \<times> (event list \<times> bool) list" where
  "global_ba_loop fresh max_ram_usage [] backend = (backend, [])"
| "global_ba_loop fresh max_ram_usage (used_mem # samples) backend =
     (case global_ba_cycle fresh max_ram_usage used_mem backend of
        (backend', msgs, did_ba) \<Rightarrow>
          (case global_ba_loop fresh max_ram_usage samples backend' of
             (backend'', trace) \<Rightarrow> (backend'', (msgs, did_ba) # trace)))"

subsection \<open>Start-up checks\<close>

text \<open>The fields of the configuration and of \<open>self.video\<close> that \<open>sanity_checks\<close> reads, and
  \<open>cfg.run_backend\<close> and the like are not needed here.\<close>

record config =
  mode :: string
  optimize_scales :: bool
  opt_intr :: bool
  run_mapping :: bool
  use_non_keyframes :: bool
  refinement_iters :: int

text \<open>\<open>SLAM.sanity_checks\<close> (lines 142 to 163).\<close>

definition sanity_checks :: "config \<Rightarrow> error + unit" where
  "sanity_checks cfg =
     (if mode cfg = ''stereo'' then Inl NotImplementedError
      else if mode cfg = ''prgbd'' \<and> optimize_scales cfg \<and> opt_intr cfg then Inl AssertionError
      else if run_mapping cfg \<and> use_non_keyframes cfg \<and> \<not> refinement_iters cfg > 0
        then Inl AssertionError
      else Inr ())"

text \<open>
  \<open>SLAM.__init__\<close> (lines 55 to 136) builds the object and calls \<open>sanity_checks\<close> last; it
  starts no process. The result is the object (here its configuration) or the exception,
  and the names of the processes started so far.
\<close>

definition SLAM_init :: "config \<Rightarrow> (error + config) \<times> string list" where
  "SLAM_init cfg = (case sanity_checks cfg of Inl e \<Rightarrow> (Inl e, []) | Inr u \<Rightarrow> (Inr cfg, []))"

text \<open>\<open>SLAM.run\<close> (lines 614 to 635): the six worker processes, started in this order.\<close>

definition run :: "config \<Rightarrow> string list" where
  "run slam = [''OpenCV Stream'', ''Frontend Tracking'', ''Backend'', ''Visualizing'',
               ''Gaussian Mapping'', ''Mapping GUI'']"

text \<open>Constructing the system and running it: \<open>run\<close> is a method of the constructed object,
  so an exception of the constructor leaves nothing to run.\<close>

definition construct_and_run :: "config \<Rightarrow> error option \<times> string list" where
  "construct_and_run cfg =
     (case SLAM_init cfg of
        (Inl e, started) \<Rightarrow> (Some e, started)
      | (Inr slam, started) \<Rightarrow> (None, started @ run slam))"

section \<open>Concrete instances\<close>

text \<open>
  A small instance of the numerical kernels, for evaluating the engine on concrete
  inputs: poses are reals retracted by addition, an image has one pixel, every dense
  block is the integer 1, and every solver returns a constant update.
\<close>

definition demo_numerics :: "(real, unit, int, unit) numerics" where
  "demo_numerics =
     \<lparr> manifold_dim = 1,
       retr = (\<lambda>p dx. case dx of [Fin r] \<Rightarrow> p + r | _ \<Rightarrow> p),
       hessian_and_rhs = (\<lambda>obs ps ds ii jj.
          Inr \<lparr> Hii = map (\<lambda>i. 1) ii, Hij = map (\<lambda>i. 1) ii, Hji = map (\<lambda>i. 1) ii,
                Hjj = map (\<lambda>i. 1) ii, Eik = map (\<lambda>i. 1) ii, Ejk = map (\<lambda>i. 1) ii,
                Ck = map (\<lambda>i. Img (\<lambda>p. 1)) ii, vi = map (\<lambda>i. 1) ii, vj = map (\<lambda>i. 1) ii,
                wk = map (\<lambda>i. Img (\<lambda>p. 1)) ii \<rparr>),
       CholeskySolver = (\<lambda>ep lm H v. Inr (map (\<lambda>x. Fin 1) v)),
       LUSolver = (\<lambda>ep lm H v. Inr (map (\<lambda>x. Fin 1) v)),
       schur_block_solve = (\<lambda>H E C v w ep lm so.
          Inr (map (\<lambda>x. [Fin 1]) v, map (\<lambda>c. Img (\<lambda>p. - 1)) C)),
       prior_solve = (\<lambda>H E C v w Js Jo r2 alpha ep lm.
          Inr (map (\<lambda>x. [Fin 1]) v, map (\<lambda>c. 1) C, map (\<lambda>c. 2) C,
               map (\<lambda>c. Img (\<lambda>p. - 1)) C)),
       prior_structure_solve = (\<lambda>Js Jo r2 alpha C w ep lm.
          Inr (map (\<lambda>c. 1) C @ map (\<lambda>c. 2) C, map (\<lambda>c. Img (\<lambda>p. - 1)) C)) \<rparr>"

text \<open>The same with a Cholesky solver that overflows: its result has an infinite entry
  and no NaN. The LU solver returns a finite update.\<close>

definition overflow_numerics :: "(real, unit, int, unit) numerics" where
  "overflow_numerics =
     demo_numerics \<lparr> CholeskySolver := (\<lambda>ep lm H v. Inr (map (\<lambda>x. PInf) v)) \<rparr>"

text \<open>And with solvers that both fail with NaN.\<close>

definition nan_numerics :: "(real, unit, int, unit) numerics" where
  "nan_numerics =
     demo_numerics \<lparr> CholeskySolver := (\<lambda>ep lm H v. Inr (map (\<lambda>x. NaN) v)),
                     LUSolver := (\<lambda>ep lm H v. Inr (map (\<lambda>x. NaN) v)) \<rparr>"

text \<open>Two keyframes with disparity \<open>1/2\<close>, poses 0 and 10, and no prior scales.\<close>

definition two_frames :: "(real, unit) store" where
  "two_frames =
     \<lparr> poses = [0, 10], disps = [Img (\<lambda>p. 1 / 2), Img (\<lambda>p. 1 / 2)],
       scales = None, shifts = None \<rparr>"

text \<open>Three keyframes with scales 1 and shifts 0, and a prior of \<open>1/4\<close> everywhere.\<close>

definition three_frames :: "(real, unit) store" where
  "three_frames =
     \<lparr> poses = [0, 10, 20],
       disps = [Img (\<lambda>p. 1 / 2), Img (\<lambda>p. 1 / 2), Img (\<lambda>p. 1 / 2)],
       scales = Some [1, 1, 1], shifts = Some [0, 0, 0] \<rparr>"

definition quarter_prior :: "unit img list" where
  "quarter_prior = [Img (\<lambda>p. 1 / 4), Img (\<lambda>p. 1 / 4), Img (\<lambda>p. 1 / 4)]"

section \<open>Frame predicate\<close>

text \<open>
  What a windowed solve with first free pose \<open>f\<close> and window end \<open>t1\<close> must leave alone: the
  poses before \<open>f\<close>, and every pose, disparity map, scale and shift from \<open>t1\<close> on; no
  tensor changes its length.
\<close>

definition same_outside :: "nat \<Rightarrow> nat \<Rightarrow> ('p, 'x) store \<Rightarrow> ('p, 'x) store \<Rightarrow> bool" where
  "same_outside f t1 st st' \<longleftrightarrow>
     take f (poses st') = take f (poses st) \<and>
     drop t1 (poses st') = drop t1 (poses st) \<and>
     length (poses st') = length (poses st) \<and>
     drop t1 (disps st') = drop t1 (disps st) \<and>
     length (disps st') = length (disps st) \<and>
     map_option (drop t1) (scales st') = map_option (drop t1) (scales st) \<and>
     map_option length (scales st') = map_option length (scales st) \<and>
     map_option (drop t1) (shifts st') = map_option (drop t1) (shifts st) \<and>
     map_option length (shifts st') = map_option length (shifts st)"

section \<open>Theorems\<close>

subsection \<open>Auxiliary facts\<close>

lemma and_then_Inr_iff:
  "and_then r f = Inr y \<longleftrightarrow> (\<exists>x. r = Inr x \<and> f x = Inr y)"
  by (cases r) (simp_all add: and_then_def)

lemma and_then_Inr [simp]: "and_then (Inr x) f = f x"
  by (simp add: and_then_def)

lemma and_then_Inl [simp]: "and_then (Inl e) f = Inl e"
  by (simp add: and_then_def)

lemma scatter_add_inplace_length:
  "scatter_add_inplace out idx src = Inr r \<Longrightarrow> length r = length out"
  by (induction out idx src rule: scatter_add_inplace.induct) (auto split: if_splits)

lemma scatter_sum_length:
  "scatter_sum src idx n = Inr r \<Longrightarrow> length r = nat n"
  by (auto simp: scatter_sum_def split: if_splits dest: scatter_add_inplace_length)

lemma safe_scatter_add_vec_length:
  "safe_scatter_add_vec b ii n = Inr r \<Longrightarrow> length r = nat n"
  by (auto simp: safe_scatter_add_vec_def and_then_Inr_iff Let_def dest: scatter_sum_length)

lemma additive_retr_length:
  "additive_retr ds dz ii = Inr r \<Longrightarrow> length r = length ds"
  by (auto simp: additive_retr_def and_then_Inr_iff dest!: scatter_sum_length)

lemma assign_window_Inr:
  "assign_window xs t1 new = Inr r \<Longrightarrow> r = new @ drop t1 xs \<and> length new = min (length xs) t1"
  by (auto simp: assign_window_def split: if_splits)

lemma retr_unfixed_Inr:
  "retr_unfixed num pw f dx = Inr r \<Longrightarrow> length r = length pw \<and> take f r = take f pw"
  by (auto simp: retr_unfixed_def Let_def split: if_splits)

lemma window_write:
  assumes "length new = min (length xs) t1"
  shows "drop t1 (new @ drop t1 xs) = drop t1 xs" and "length (new @ drop t1 xs) = length xs"
  using assms by (auto simp: min_def)

lemma window_write_take:
  assumes "length new = length (take t1 xs)" and "take f new = take f (take t1 xs)"
  shows "take f (new @ drop t1 xs) = take f xs"
proof -
  have "take f (new @ drop t1 xs) = take f new @ take (f - length new) (drop t1 xs)"
    by (rule take_append)
  also have "\<dots> = take f (take t1 xs) @ take (f - length (take t1 xs)) (drop t1 xs)"
    by (simp only: assms)
  also have "\<dots> = take f (take t1 xs @ drop t1 xs)"
    by (rule take_append [symmetric])
  also have "\<dots> = take f xs"
    by (simp only: append_take_drop_id)
  finally show ?thesis .
qed

lemma same_outside_refl [simp]: "same_outside f t1 st st"
  by (simp add: same_outside_def)

lemma same_outside_trans:
  "same_outside f t1 a b \<Longrightarrow> same_outside f t1 b c \<Longrightarrow> same_outside f t1 a c"
  by (simp add: same_outside_def)

lemma poses_write_same_outside:
  assumes r: "retr_unfixed num (take t1 (poses st)) f dx = Inr r"
    and a: "assign_window (poses st) t1 r = Inr ps"
  shows "same_outside f t1 st (st\<lparr>poses := ps\<rparr>)"
proof -
  from retr_unfixed_Inr [OF r] have l: "length r = length (take t1 (poses st))"
    and t: "take f r = take f (take t1 (poses st))" by auto
  from assign_window_Inr [OF a] have ps: "ps = r @ drop t1 (poses st)" by simp
  have "take f ps = take f (poses st)"
    unfolding ps using l t by (rule window_write_take)
  moreover have "drop t1 ps = drop t1 (poses st)" "length ps = length (poses st)"
    unfolding ps using l by (auto simp: min_def)
  ultimately show ?thesis by (simp add: same_outside_def)
qed

lemma disps_write_same_outside:
  assumes r: "additive_retr (take t1 (disps st)) dz kx = Inr r"
    and a: "assign_window (disps st) t1 r = Inr ds"
  shows "same_outside f t1 st (st\<lparr>disps := ds\<rparr>)"
proof -
  from additive_retr_length [OF r] have l: "length r = length (take t1 (disps st))" .
  from assign_window_Inr [OF a] have ps: "ds = r @ drop t1 (disps st)" by simp
  have "drop t1 ds = drop t1 (disps st)" "length ds = length (disps st)"
    unfolding ps using l by (auto simp: min_def)
  then show ?thesis by (simp add: same_outside_def)
qed

lemma MoBA_same_outside: "same_outside (max t0 1) t1 st (snd (MoBA num obs st ii jj t0 t1 ep lm))"
  by (auto simp: MoBA_def Let_def and_then_Inr_iff split: sum.splits
      intro: poses_write_same_outside)

lemma poses_write':
  "and_then (retr_unfixed num (take t1 (poses st)) f dx) (assign_window (poses st) t1) = Inr ps
   \<Longrightarrow> same_outside f t1 st (st\<lparr>poses := ps\<rparr>)"
  by (auto simp: and_then_Inr_iff intro: poses_write_same_outside)

lemma disps_write':
  "and_then (additive_retr (take t1 (disps st)) dz kx) (assign_window (disps st) t1) = Inr ds
   \<Longrightarrow> same_outside f t1 st (st\<lparr>disps := ds\<rparr>)"
  by (auto simp: and_then_Inr_iff intro: disps_write_same_outside)

lemma both_write':
  assumes "and_then (retr_unfixed num (take t1 (poses st)) f dx) (assign_window (poses st) t1) = Inr ps"
    and "and_then (additive_retr (take t1 (disps st)) dz kx) (assign_window (disps st) t1) = Inr ds"
  shows "same_outside f t1 st (st\<lparr>poses := ps, disps := ds\<rparr>)"
  using poses_write' [OF assms(1)] disps_write' [OF assms(2), of f]
  by (simp add: same_outside_def)

lemma BA_same_outside:
  "same_outside (max t0 1) t1 st (snd (BA num obs st ii jj t0 t1 eta sens alpha ep lm so))"
  by (auto simp: BA_def Let_def split: sum.splits prod.splits
      intro: poses_write' disps_write' both_write')

lemma window_assign_facts:
  assumes "additive_retr (take t1 xs) dz kx = Inr r" and "assign_window xs t1 r = Inr ys"
  shows "drop t1 ys = drop t1 xs" and "length ys = length xs"
proof -
  from additive_retr_length [OF assms(1)] have l: "length r = length (take t1 xs)" .
  from assign_window_Inr [OF assms(2)] have "ys = r @ drop t1 xs" by simp
  with l show "drop t1 ys = drop t1 xs" and "length ys = length xs"
    by (auto simp: min_def)
qed

lemma write_structure_same_outside:
  assumes "scales s = Some a" and "shifts s = Some b"
  shows "same_outside f t1 s
           (snd (write_structure s t1 (take t1 (disps s)) (take t1 a) (take t1 b) kx dz ds do))"
  using assms
  by (auto simp: write_structure_def Let_def same_outside_def and_then_Inr_iff
      split: sum.splits dest: window_assign_facts)

lemma get_keyframe_window_Inr:
  assumes "get_keyframe_window st t1 sens = Inr (dw, pw, sw, sc, sh)"
  shows "\<exists>z a b. sens = Some z \<and> scales st = Some a \<and> shifts st = Some b \<and>
           dw = take t1 (disps st) \<and> pw = take t1 (poses st) \<and> sw = take t1 z \<and>
           sc = take t1 a \<and> sh = take t1 b"
  using assms by (auto simp: get_keyframe_window_def split: option.splits)

lemma BA_prior_no_motion_same_outside:
  "same_outside f t1 st (snd (BA_prior_no_motion num obs st ii jj t0 t1 eta sens ep lm alpha))"
  by (auto simp: BA_prior_no_motion_def split: sum.splits prod.splits
      dest!: get_keyframe_window_Inr intro: write_structure_same_outside)

lemma BA_prior_same_outside:
  "same_outside (max t0 1) t1 st (snd (BA_prior num obs st ii jj t0 t1 eta sens ep lm alpha))"
proof (cases "get_keyframe_window st t1 sens")
  case (Inl e)
  then show ?thesis by (simp add: BA_prior_def)
next
  case (Inr win)
  obtain dw pw sw sc sh where win: "win = (dw, pw, sw, sc, sh)"
    by (cases win) auto
  from get_keyframe_window_Inr [OF Inr [unfolded win]] obtain z a b where
    w: "sens = Some z" "scales st = Some a" "shifts st = Some b" "dw = take t1 (disps st)"
      "pw = take t1 (poses st)" "sw = take t1 z" "sc = take t1 a" "sh = take t1 b"
    by blast
  have step: "same_outside (max t0 1) t1 st
      (snd (write_structure (st\<lparr>poses := ps\<rparr>) t1 dw sc sh kx dz ds do))"
    if "and_then (retr_unfixed num pw (max t0 1) dx) (assign_window (poses st) t1) = Inr ps"
    for dx ps kx dz ds do
  proof -
    have "same_outside (max t0 1) t1 st (st\<lparr>poses := ps\<rparr>)"
      using that unfolding w by (rule poses_write')
    moreover have "same_outside (max t0 1) t1 (st\<lparr>poses := ps\<rparr>)
      (snd (write_structure (st\<lparr>poses := ps\<rparr>) t1 (take t1 (disps (st\<lparr>poses := ps\<rparr>))) (take t1 a) (take t1 b) kx dz ds do))"
      by (rule write_structure_same_outside) (simp_all add: w)
    ultimately show ?thesis
      unfolding w by (auto intro: same_outside_trans)
  qed
  show ?thesis
    using step by (auto simp: BA_prior_def Inr win Let_def split: sum.splits prod.splits)
qed

lemma ba_loop_same_outside:
  assumes "\<And>s. same_outside f t1 s (snd (ba_function s))"
  shows "same_outside f t1 st (snd (ba_loop ba_function iters st))"
proof (induction iters arbitrary: st)
  case 0
  show ?case by simp
next
  case (Suc i)
  show ?case
  proof (cases "ba_function st")
    case (Pair r st')
    with assms [of st] have 1: "same_outside f t1 st st'" by simp
    show ?thesis
    proof (cases r)
      case None
      with Pair 1 Suc [of st'] show ?thesis
        by (auto simp: Let_def intro: same_outside_trans)
    next
      case (Some e)
      with Pair 1 show ?thesis by simp
    qed
  qed
qed

lemma bundle_adjustment_same_outside:
  "same_outside (max t0 1) t1 st
     (snd (bundle_adjustment num obs damping st ii jj t0 t1 disps_sens iters lm ep
             structure_only motion_only scale_prior alpha))"
  by (auto simp: bundle_adjustment_def simp del: One_nat_def
      intro!: ba_loop_same_outside MoBA_same_outside BA_same_outside BA_prior_same_outside
        BA_prior_no_motion_same_outside)

lemma same_tail_nth:
  assumes "drop t1 ys = drop t1 xs" and "length ys = length xs" and "t1 \<le> i" and "i < length xs"
  shows "ys ! i = xs ! i"
proof -
  have i: "t1 + (i - t1) = i" using assms(3) by simp
  have "t1 \<le> length ys" and "t1 \<le> length xs" using assms by simp_all
  then have "drop t1 ys ! (i - t1) = ys ! (t1 + (i - t1))"
    and "drop t1 xs ! (i - t1) = xs ! (t1 + (i - t1))"
    by (simp_all only: nth_drop)
  with assms(1) show ?thesis by (simp only: i)
qed

lemma same_head_nth:
  assumes "take f ys = take f xs" and "i < f"
  shows "ys ! i = xs ! i"
proof -
  have "take f ys ! i = ys ! i" and "take f xs ! i = xs ! i"
    using assms(2) by (simp_all only: nth_take)
  with assms(1) show ?thesis by simp
qed

lemmas engine_defs =
  bundle_adjustment_def BA_def BA_update_def MoBA_def MoBA_system_def MoBA_solve_def
  BA_prior_def BA_prior_update_def BA_prior_no_motion_def prior_no_motion_system_def
  write_structure_def scatter_pose_structure_def apply_prior_def scaled_prior_def
  get_regularizor_jacobians_def zero_columns_def get_keyframe_window_def retr_unfixed_def
  rearrange_rows_def additive_retr_def assign_window_def torch_unique_def index_select_def
  broadcast2_def safe_scatter_add_vec_def safe_scatter_add_mat_def
  safe_scatter_add_mat_inplace_def safe_scatter_add_vec_inplace_def scatter_sum_def
  mask_select_def mask2_def clamp_min_def img_map_def img_map2_def zero_img_def plus_img_def
  demo_numerics_def two_frames_def three_frames_def quarter_prior_def zeros_like_def isnan_def

lemma demo_joint_run:
  "bundle_adjustment demo_numerics () [Img (\<lambda>p. 0)] two_frames [0] [1] 0 2 None 1 0 0
     False False False 1
   = (None, \<lparr> poses = [0, 11], disps = [Img (\<lambda>p. - 1 / 2), Img (\<lambda>p. 1 / 2)],
              scales = None, shifts = None \<rparr>)"
  by (simp add: engine_defs Let_def eval_nat_numeral fun_eq_iff)

lemma demo_prior_run:
  "bundle_adjustment demo_numerics () [Img (\<lambda>p. 0)] three_frames [0] [1] 0 2
     (Some quarter_prior) 1 0 0 False False True 1
   = (None, \<lparr> poses = [0, 11, 20],
              disps = [Img (\<lambda>p. - 1 / 2), Img (\<lambda>p. 1 / 2), Img (\<lambda>p. 1 / 2)],
              scales = Some [2, 1, 1], shifts = Some [2, 0, 0] \<rparr>)"
  by (simp add: engine_defs Let_def eval_nat_numeral fun_eq_iff)

lemma demo_prior_no_motion_run:
  "bundle_adjustment demo_numerics () [Img (\<lambda>p. 0)] three_frames [0] [1] 0 2
     (Some quarter_prior) 1 0 0 True False True 1
   = (None, \<lparr> poses = [0, 10, 20],
              disps = [Img (\<lambda>p. - 1 / 2), Img (\<lambda>p. - 1 / 2), Img (\<lambda>p. 1 / 2)],
              scales = Some [2, 2, 1], shifts = Some [2, 2, 0] \<rparr>)"
  by (simp add: engine_defs Let_def eval_nat_numeral fun_eq_iff)

subsection \<open>Gauge fixing\<close>

text \<open>
  Claim C4. For every call of the entry point, whatever the variant, the iteration count
  and the numerical kernels, and also when an iteration raises: with \<open>st'\<close> the store after
  the call, the pose tensor keeps its length, and every pose whose index is below
  \<open>max t0 1\<close> (the pose of frame 0 among them) or at least \<open>t1\<close> is the one it was. So only
  poses with index in \<open>[max t0 1, t1)\<close> can have been retracted.
\<close>

theorem gauge_fixing_poses_unchanged:
  assumes "st' = snd (bundle_adjustment num obs damping st ii jj t0 t1 disps_sens iters lm ep
                        structure_only motion_only scale_prior alpha)"
  shows "length (poses st') = length (poses st) \<and>
         take (max t0 1) (poses st') = take (max t0 1) (poses st) \<and>
         (\<forall>i. i < max t0 1 \<or> (t1 \<le> i \<and> i < length (poses st))
              \<longrightarrow> poses st' ! i = poses st ! i)"
proof -
  have s: "same_outside (max t0 1) t1 st st'"
    unfolding assms by (rule bundle_adjustment_same_outside)
  then have l: "length (poses st') = length (poses st)"
    and t: "take (max t0 1) (poses st') = take (max t0 1) (poses st)"
    and d: "drop t1 (poses st') = drop t1 (poses st)"
    by (simp_all add: same_outside_def)
  show ?thesis
    using l t same_head_nth [OF t] same_tail_nth [OF d l] by blast
qed

theorem gauge_fixing_poses_unchanged_witness:
  "poses (snd (bundle_adjustment demo_numerics () [Img (\<lambda>p. 0)] three_frames [0] [1] 0 2
                 (Some quarter_prior) 1 0 0 False False True 1)) ! 0 = 0
   \<and> snd (bundle_adjustment demo_numerics () [Img (\<lambda>p. 0)] three_frames [0] [1] 0 2
                 (Some quarter_prior) 1 0 0 False False True 1)
       = \<lparr> poses = [0, 11, 20],
            disps = [Img (\<lambda>p. - 1 / 2), Img (\<lambda>p. 1 / 2), Img (\<lambda>p. 1 / 2)],
            scales = Some [2, 1, 1], shifts = Some [2, 0, 0] \<rparr>"
proof -
  have "(0::nat) < max 0 1" by simp
  with gauge_fixing_poses_unchanged [OF refl, where num = demo_numerics and obs = "()"
      and damping = "[Img (\<lambda>p. 0)]" and st = three_frames and ii = "[0]" and jj = "[1]"
      and ?t0.0 = 0 and ?t1.0 = 2 and disps_sens = "Some quarter_prior" and iters = 1
      and lm = 0 and ep = 0 and structure_only = False and motion_only = False
      and scale_prior = True and alpha = 1]
  have "poses (snd (bundle_adjustment demo_numerics () [Img (\<lambda>p. 0)] three_frames [0] [1] 0 2
                 (Some quarter_prior) 1 0 0 False False True 1)) ! 0 = poses three_frames ! 0"
    by blast
  moreover have "poses three_frames ! 0 = 0"
    by (simp add: three_frames_def)
  moreover have "snd (bundle_adjustment demo_numerics () [Img (\<lambda>p. 0)] three_frames [0] [1] 0 2
                 (Some quarter_prior) 1 0 0 False False True 1)
       = \<lparr> poses = [0, 11, 20],
            disps = [Img (\<lambda>p. - 1 / 2), Img (\<lambda>p. 1 / 2), Img (\<lambda>p. 1 / 2)],
            scales = Some [2, 1, 1], shifts = Some [2, 0, 0] \<rparr>"
    by (simp only: demo_prior_run snd_conv)
  ultimately show ?thesis by (simp only: simp_thms)
qed

subsection \<open>No write from the window end on\<close>

text \<open>
  Claim C5. For every call of the entry point, whatever the variant, the iteration count
  and the numerical kernels, and also when an iteration raises: no tensor of the store
  changes its length, and every pose, disparity map, scale and shift at an index of at
  least \<open>t1\<close> is the one it was. Scales and shifts that were \<open>None\<close> stay \<open>None\<close>.
\<close>

theorem no_write_beyond_t1:
  assumes "st' = snd (bundle_adjustment num obs damping st ii jj t0 t1 disps_sens iters lm ep
                        structure_only motion_only scale_prior alpha)"
  shows "drop t1 (poses st') = drop t1 (poses st) \<and> length (poses st') = length (poses st) \<and>
         drop t1 (disps st') = drop t1 (disps st) \<and> length (disps st') = length (disps st) \<and>
         map_option (drop t1) (scales st') = map_option (drop t1) (scales st) \<and>
         map_option length (scales st') = map_option length (scales st) \<and>
         map_option (drop t1) (shifts st') = map_option (drop t1) (shifts st) \<and>
         map_option length (shifts st') = map_option length (shifts st) \<and>
         (\<forall>i. t1 \<le> i \<and> i < length (poses st) \<longrightarrow> poses st' ! i = poses st ! i) \<and>
         (\<forall>i. t1 \<le> i \<and> i < length (disps st) \<longrightarrow> disps st' ! i = disps st ! i)"
proof -
  have s: "same_outside (max t0 1) t1 st st'"
    unfolding assms by (rule bundle_adjustment_same_outside)
  then have p: "drop t1 (poses st') = drop t1 (poses st)" "length (poses st') = length (poses st)"
    and d: "drop t1 (disps st') = drop t1 (disps st)" "length (disps st') = length (disps st)"
    by (simp_all add: same_outside_def)
  from s show ?thesis
    using same_tail_nth [OF p] same_tail_nth [OF d] by (simp add: same_outside_def)
qed

theorem no_write_beyond_t1_witness:
  "poses (snd (bundle_adjustment demo_numerics () [Img (\<lambda>p. 0)] three_frames [0] [1] 0 2
                 (Some quarter_prior) 1 0 0 True False True 1)) ! 2 = 20
   \<and> disps (snd (bundle_adjustment demo_numerics () [Img (\<lambda>p. 0)] three_frames [0] [1] 0 2
                 (Some quarter_prior) 1 0 0 True False True 1)) ! 2 = Img (\<lambda>p. 1 / 2)
   \<and> snd (bundle_adjustment demo_numerics () [Img (\<lambda>p. 0)] three_frames [0] [1] 0 2
                 (Some quarter_prior) 1 0 0 True False True 1)
       = \<lparr> poses = [0, 10, 20],
            disps = [Img (\<lambda>p. - 1 / 2), Img (\<lambda>p. - 1 / 2), Img (\<lambda>p. 1 / 2)],
            scales = Some [2, 2, 1], shifts = Some [2, 2, 0] \<rparr>"
proof -
  have "(2::nat) \<le> 2 \<and> 2 < length (poses three_frames)"
    and "(2::nat) \<le> 2 \<and> 2 < length (disps three_frames)"
    by (simp_all add: three_frames_def)
  with no_write_beyond_t1 [OF refl, where num = demo_numerics and obs = "()"
      and damping = "[Img (\<lambda>p. 0)]" and st = three_frames and ii = "[0]" and jj = "[1]"
      and ?t0.0 = 0 and ?t1.0 = 2 and disps_sens = "Some quarter_prior" and iters = 1
      and lm = 0 and ep = 0 and structure_only = True and motion_only = False
      and scale_prior = True and alpha = 1]
  have "poses (snd (bundle_adjustment demo_numerics () [Img (\<lambda>p. 0)] three_frames [0] [1] 0 2
                 (Some quarter_prior) 1 0 0 True False True 1)) ! 2 = poses three_frames ! 2"
    and "disps (snd (bundle_adjustment demo_numerics () [Img (\<lambda>p. 0)] three_frames [0] [1] 0 2
                 (Some quarter_prior) 1 0 0 True False True 1)) ! 2 = disps three_frames ! 2"
    by blast+
  moreover have "poses three_frames ! 2 = 20" and "disps three_frames ! 2 = Img (\<lambda>p. 1 / 2)"
    by (simp_all add: three_frames_def)
  moreover have "snd (bundle_adjustment demo_numerics () [Img (\<lambda>p. 0)] three_frames [0] [1] 0 2
                 (Some quarter_prior) 1 0 0 True False True 1)
       = \<lparr> poses = [0, 10, 20],
            disps = [Img (\<lambda>p. - 1 / 2), Img (\<lambda>p. - 1 / 2), Img (\<lambda>p. 1 / 2)],
            scales = Some [2, 2, 1], shifts = Some [2, 2, 0] \<rparr>"
    by (simp only: demo_prior_no_motion_run snd_conv)
  ultimately show ?thesis by (simp only: simp_thms)
qed

subsection \<open>Assertions of the entry point\<close>

text \<open>
  Claim C10. \<open>bundle_adjustment\<close> fails with an assertion error when \<open>structure_only\<close> and
  \<open>motion_only\<close> are both true, and when \<open>scale_prior\<close> is true and no prior disparities are
  given. In both cases it fails before the first iteration: the store is returned as it
  was, whatever the iteration count and the numerical kernels.
\<close>

theorem bundle_adjustment_asserts:
  assumes "(structure_only \<and> motion_only) \<or> (scale_prior \<and> disps_sens = None)"
  shows "bundle_adjustment num obs damping st ii jj t0 t1 disps_sens iters lm ep
           structure_only motion_only scale_prior alpha = (Some AssertionError, st)"
  using assms by (auto simp: bundle_adjustment_def)

theorem bundle_adjustment_asserts_witness:
  "bundle_adjustment demo_numerics () [] two_frames [0] [1] 0 2 None 4 0 0 True True False 1
     = (Some AssertionError, two_frames)
   \<and> bundle_adjustment demo_numerics () [] two_frames [0] [1] 0 2 None 4 0 0 False False True 1
     = (Some AssertionError, two_frames)"
  using bundle_adjustment_asserts [of True True False None demo_numerics "()" "[]" two_frames
      "[0]" "[1]" 0 2 4 0 0 1]
    bundle_adjustment_asserts [of False False True None demo_numerics "()" "[]" two_frames
      "[0]" "[1]" 0 2 4 0 0 1]
  by simp

subsection \<open>Start-up checks\<close>

text \<open>
  Claim C9. Constructing the system in stereo mode raises (\<open>NotImplementedError\<close>), and
  constructing it in prgbd mode with both the optimization of the prior's scales and
  shifts and the optimization of the intrinsics enabled raises (\<open>AssertionError\<close>). In
  either case the constructor has started no process, and constructing and then running
  the system starts none either: the worker processes are started by \<open>run\<close> only.
\<close>

theorem config_conflict_fatal_at_startup:
  assumes "mode cfg = ''stereo'' \<or> (mode cfg = ''prgbd'' \<and> optimize_scales cfg \<and> opt_intr cfg)"
  shows "SLAM_init cfg =
           (Inl (if mode cfg = ''stereo'' then NotImplementedError else AssertionError), [])
       \<and> construct_and_run cfg =
           (Some (if mode cfg = ''stereo'' then NotImplementedError else AssertionError), [])"
  using assms by (auto simp: SLAM_init_def construct_and_run_def sanity_checks_def)

theorem config_conflict_fatal_at_startup_witness:
  "SLAM_init \<lparr>mode = ''stereo'', optimize_scales = False, opt_intr = False,
      run_mapping = False, use_non_keyframes = False, refinement_iters = 0\<rparr>
     = (Inl NotImplementedError, [])
   \<and> construct_and_run \<lparr>mode = ''prgbd'', optimize_scales = True, opt_intr = True,
      run_mapping = False, use_non_keyframes = False, refinement_iters = 0\<rparr>
     = (Some AssertionError, [])"
  using config_conflict_fatal_at_startup [of "\<lparr>mode = ''stereo'', optimize_scales = False,
      opt_intr = False, run_mapping = False, use_non_keyframes = False, refinement_iters = 0\<rparr>"]
    config_conflict_fatal_at_startup [of "\<lparr>mode = ''prgbd'', optimize_scales = True,
      opt_intr = True, run_mapping = False, use_non_keyframes = False, refinement_iters = 0\<rparr>"]
  by simp

lemma construct_and_run_starts_workers:
  "sanity_checks cfg = Inr () \<Longrightarrow> construct_and_run cfg = (None, run cfg)"
  by (simp add: construct_and_run_def SLAM_init_def)

end
